theory Spec2Isabelle
  imports Main "HOL-Library.AList"
begin

section \<open>Values, exceptions and collaborators\<close>

text \<open>
  The agent of \<^verbatim>\<open>game/core/agent.py\<close> exchanges decoded JSON with its language
  model, keeps Python dictionaries, and calls three kinds of collaborators that may
  raise: the environment, the provider and the action handlers.

  A Python \<^verbatim>\<open>dict\<close> with string keys is an association list: \<^verbatim>\<open>d[k] = v\<close> is
  \<open>AList.update\<close> (the value is replaced in place, a new key goes to the end, as
  in a Python dict), \<^verbatim>\<open>d.get(k)\<close> is \<open>map_of\<close> and removing a key is
  \<open>AList.delete\<close>.

  Floating-point numbers are not interpreted: a decoded float is a value of the
  unspecified type \<open>pyfloat\<close>.
\<close>

typedecl pyfloat

datatype json =
    JNull
  | JBool bool
  | JInt int
  | JFloat pyfloat
  | JStr string
  | JArr "json list"
  | JObj "(string \<times> json) list"

text \<open>
  Exceptions. The classes the agent itself raises or meets are constructors of
  their own; \<open>KeyError\<close> carries the missing key, the others their message, which is
  what \<^verbatim>\<open>str(e)\<close> returns. \<open>JSONDecodeError\<close> is the subclass of \<^verbatim>\<open>ValueError\<close>
  that \<^verbatim>\<open>json.loads\<close> raises on text that is not JSON.
  \<open>OtherException cls msg\<close> is any other class derived from \<^verbatim>\<open>Exception\<close>;
  \<open>BaseOnly cls msg\<close> is a class derived from \<^verbatim>\<open>BaseException\<close> but not from
  \<^verbatim>\<open>Exception\<close> (\<^verbatim>\<open>SystemExit\<close>, \<^verbatim>\<open>KeyboardInterrupt\<close>, \<^verbatim>\<open>GeneratorExit\<close>,
  \<^verbatim>\<open>asyncio.CancelledError\<close>), which \<^verbatim>\<open>except Exception\<close> does not catch.
\<close>

datatype exn =
    KeyError string
  | ValueError string
  | TypeError string
  | IndexError string
  | AttributeError string
  | JSONDecodeError string
  | OtherException string string
  | BaseOnly string string

fun is_Exception :: "exn \<Rightarrow> bool" where
  "is_Exception (BaseOnly cls msg) = False"
| "is_Exception e = True"

definition apos :: string where
  "apos = [CHR 0x27]"

definition backslash :: char where
  "backslash = CHR 0x5C"

definition hex_digit :: "nat \<Rightarrow> char" where
  "hex_digit n = ''0123456789abcdef'' ! n"

text \<open>
  \<^verbatim>\<open>repr\<close> of a string, which is what \<^verbatim>\<open>str(KeyError(key))\<close> shows. Characters are
  the code points 0 to 255: Python escapes the quote in use, the backslash, the
  control characters, and the unprintable code points 127 to 160 and 173.
\<close>

definition repr_quote :: "string \<Rightarrow> char" where
  "repr_quote s = (if CHR 0x27 \<in> set s \<and> CHR 0x22 \<notin> set s then CHR 0x22 else CHR 0x27)"

definition repr_char :: "char \<Rightarrow> char \<Rightarrow> string" where
  "repr_char q c =
     (let n = (of_char c :: int) in
      if c = q \<or> c = backslash then [backslash, c]
      else if n = 9 then [backslash, CHR ''t'']
      else if n = 10 then [backslash, CHR ''n'']
      else if n = 13 then [backslash, CHR ''r'']
      else if n < 32 \<or> (127 \<le> n \<and> n \<le> 160) \<or> n = 173
        then [backslash, CHR ''x'', hex_digit (nat (n div 16)), hex_digit (nat (n mod 16))]
      else [c])"

definition repr_str :: "string \<Rightarrow> string" where
  "repr_str s = (let q = repr_quote s in q # concat (map (repr_char q) s) @ [q])"

fun str_exn :: "exn \<Rightarrow> string" where
  "str_exn (KeyError k) = repr_str k"
| "str_exn (ValueError m) = m"
| "str_exn (TypeError m) = m"
| "str_exn (IndexError m) = m"
| "str_exn (AttributeError m) = m"
| "str_exn (JSONDecodeError m) = m"
| "str_exn (OtherException cls m) = m"
| "str_exn (BaseOnly cls m) = m"

text \<open>
  A call of a collaborator reads and changes the world outside the agent (type
  \<open>'w\<close>: the network, the clock, the collaborator's own fields) and either returns
  or raises. The agent object itself is not part of that world: the source gives
  no collaborator a reference to the agent.
\<close>

type_synonym ('w, 'a) io = "'w \<Rightarrow> (exn + 'a) \<times> 'w"

section \<open>The action registry (\<^verbatim>\<open>game/core/actions.py\<close>)\<close>

text \<open>
  \<^verbatim>\<open>Action\<close>: the handler \<open>func\<close> takes the keyword arguments and returns a
  result of the opaque type \<open>'r\<close>, or raises.
\<close>

record ('w, 'r) action =
  func :: "(string \<times> json) list \<Rightarrow> ('w, 'r) io"
  description :: string
  required_params :: "(string \<times> string) list"
  example :: "(string \<times> json) list"

type_synonym ('w, 'r) registry = "(string \<times> ('w, 'r) action) list"

text \<open>\<^verbatim>\<open>self._actions[name] = action\<close>\<close>

definition register :: "('w, 'r) registry \<Rightarrow> string \<Rightarrow> ('w, 'r) action \<Rightarrow> ('w, 'r) registry" where
  "register actions name action = AList.update name action actions"

text \<open>\<^verbatim>\<open>return self._actions.get(name)\<close>\<close>

definition get_action :: "('w, 'r) registry \<Rightarrow> string \<Rightarrow> ('w, 'r) action option" where
  "get_action actions name = map_of actions name"

text \<open>
  The exported entry of one action: a dictionary with exactly the three keys of
  the comprehension in \<^verbatim>\<open>get_action_descriptions\<close>; the handler is not among them.
\<close>

record action_description =
  d_description :: string
  d_required_params :: "(string \<times> string) list"
  d_example :: "(string \<times> json) list"

definition describe_action :: "('w, 'r) action \<Rightarrow> action_description" where
  "describe_action action =
     \<lparr>d_description = description action,
      d_required_params = required_params action,
      d_example = example action\<rparr>"

definition get_action_descriptions :: "('w, 'r) registry \<Rightarrow> (string \<times> action_description) list" where
  "get_action_descriptions actions = map (\<lambda>(name, action). (name, describe_action action)) actions"

text \<open>A sequence of registrations, in order, on a registry.\<close>

fun register_all :: "('w, 'r) registry \<Rightarrow> (string \<times> ('w, 'r) action) list \<Rightarrow> ('w, 'r) registry" where
  "register_all actions [] = actions"
| "register_all actions ((name, action) # rest) = register_all (register actions name action) rest"

section \<open>Python's \<^verbatim>\<open>str.format\<close>\<close>

text \<open>
  Both prompt builders end in \<^verbatim>\<open>template.format(**kwargs)\<close> with string
  arguments only. The model follows the interpreter's scanner: literal text up to a
  brace, \<^verbatim>\<open>{{\<close> and \<^verbatim>\<open>}}\<close> as escapes, a replacement field as a name, an
  optional conversion after \<^verbatim>\<open>!\<close> and an optional specification after \<^verbatim>\<open>:\<close> in
  which braces nest. Fields are rendered in order, so the first error in the
  template is the one raised.
\<close>

definition PY_SSIZE_T_MAX :: int where
  "PY_SSIZE_T_MAX = 2 ^ 63 - 1"

text \<open>The decimal numeral of an integer that is not negative.\<close>

function str_index :: "int \<Rightarrow> string" where
  "str_index n =
     (if n < 10 then [char_of (48 + n)]
      else str_index (n div 10) @ [char_of (48 + n mod 10)])"
  by pat_completeness auto
termination
  by (relation "measure nat") auto

declare str_index.simps [simp del]

definition is_digit :: "char \<Rightarrow> bool" where
  "is_digit c = (48 \<le> (of_char c :: int) \<and> (of_char c :: int) \<le> 57)"

definition digits_value :: "string \<Rightarrow> int" where
  "digits_value ds = foldl (\<lambda>acc c. acc * 10 + ((of_char c :: int) - 48)) 0 ds"

text \<open>The field name up to \<^verbatim>\<open>}\<close>, \<^verbatim>\<open>:\<close> or \<^verbatim>\<open>!\<close>; inside \<^verbatim>\<open>[...]\<close> nothing ends it.\<close>

fun scan_name :: "string \<Rightarrow> string \<Rightarrow> exn + (string \<times> char \<times> string)"
  and scan_index :: "string \<Rightarrow> string \<Rightarrow> exn + (string \<times> char \<times> string)" where
  "scan_name acc [] = Inl (ValueError (''expected '' @ apos @ ''}'' @ apos @ '' before end of string''))"
| "scan_name acc (c # cs) =
     (if c = CHR ''{'' then Inl (ValueError (''unexpected '' @ apos @ ''{'' @ apos @ '' in field name''))
      else if c = CHR ''['' then scan_index (c # acc) cs
      else if c = CHR ''}'' \<or> c = CHR '':'' \<or> c = CHR ''!'' then Inr (rev acc, c, cs)
      else scan_name (c # acc) cs)"
| "scan_index acc [] = Inl (ValueError (''expected '' @ apos @ ''}'' @ apos @ '' before end of string''))"
| "scan_index acc (c # cs) =
     (if c = CHR '']'' then scan_name (c # acc) cs else scan_index (c # acc) cs)"

text \<open>The format specification: up to the brace that closes the field.\<close>

fun scan_spec :: "nat \<Rightarrow> string \<Rightarrow> string \<Rightarrow> exn + (string \<times> string)" where
  "scan_spec count acc [] = Inl (ValueError (''unmatched '' @ apos @ ''{'' @ apos @ '' in format spec''))"
| "scan_spec count acc (c # cs) =
     (if c = CHR ''{'' then scan_spec (count + 1) (c # acc) cs
      else if c = CHR ''}'' then
        (if count - 1 = 0 then Inr (rev acc, cs) else scan_spec (count - 1) (c # acc) cs)
      else scan_spec count (c # acc) cs)"

record field =
  field_name :: string
  conversion :: "char option"
  format_spec :: string

definition parse_field :: "string \<Rightarrow> exn + (field \<times> string)" where
  "parse_field s =
     (case scan_name [] s of
        Inl e \<Rightarrow> Inl e
      | Inr (name, c, rest) \<Rightarrow>
          if c = CHR ''}'' then Inr (\<lparr>field_name = name, conversion = None, format_spec = []\<rparr>, rest)
          else if c = CHR ''!'' then
            (case rest of
               [] \<Rightarrow> Inl (ValueError ''end of string while looking for conversion specifier'')
             | conv # rest1 \<Rightarrow>
                 (case rest1 of
                    [] \<Rightarrow> map_sum id (\<lambda>(spec, rest3). (\<lparr>field_name = name, conversion = Some conv, format_spec = spec\<rparr>, rest3))
                           (scan_spec 1 [] rest1)
                  | c2 # rest2 \<Rightarrow>
                      if c2 = CHR ''}'' then Inr (\<lparr>field_name = name, conversion = Some conv, format_spec = []\<rparr>, rest2)
                      else if c2 \<noteq> CHR '':'' then
                        Inl (ValueError (''expected '' @ apos @ '':'' @ apos @ '' after conversion specifier''))
                      else map_sum id (\<lambda>(spec, rest3). (\<lparr>field_name = name, conversion = Some conv, format_spec = spec\<rparr>, rest3))
                             (scan_spec 1 [] rest2)))
          else map_sum id (\<lambda>(spec, rest3). (\<lparr>field_name = name, conversion = None, format_spec = spec\<rparr>, rest3))
                 (scan_spec 1 [] rest))"

text \<open>
  What lies outside the agent: the JSON codec, \<^verbatim>\<open>str()\<close> of values that are not
  strings, the rendering of a replacement field that asks for more than the
  argument itself (an attribute or index, a conversion, a format specification),
  and the standard output. \<^verbatim>\<open>json.loads\<close> returns the decoded value or raises:
  \<open>JSONDecodeError\<close> on text that is not JSON, and other exceptions at the limits
  of the interpreter (\<^verbatim>\<open>RecursionError\<close> on deep nesting, a plain \<^verbatim>\<open>ValueError\<close> on
  an integer of more than 4300 digits). \<open>stdout_error\<close> is what writing a text to
  \<^verbatim>\<open>sys.stdout\<close> raises, if anything, when the text has characters outside ASCII.
\<close>

record 'r runtime =
  json_loads :: "string \<Rightarrow> exn + json"
  json_dumps :: "json \<Rightarrow> string"
  repr_json :: "json \<Rightarrow> string"
  str_result :: "'r \<Rightarrow> string"
  render_field :: "(string \<times> string) list \<Rightarrow> string \<Rightarrow> string \<Rightarrow> char option \<Rightarrow> string \<Rightarrow> exn + string"
  stdout_error :: "string \<Rightarrow> exn option"

text \<open>
  \<^verbatim>\<open>print(text)\<close> on an open standard output: the encoder of the stream raises
  \<^verbatim>\<open>UnicodeEncodeError\<close> on a character it cannot encode, and Python raises what
  it raises inside the call; text of ASCII characters is always written.
\<close>

definition is_ascii :: "string \<Rightarrow> bool" where
  "is_ascii s = list_all (\<lambda>c. (of_char c :: int) < 128) s"

definition py_print :: "'r runtime \<Rightarrow> string \<Rightarrow> exn + unit" where
  "py_print rt s =
     (if is_ascii s then Inr ()
      else (case stdout_error rt s of None \<Rightarrow> Inr () | Some e \<Rightarrow> Inl e))"

text \<open>
  The argument a field names: the first part of the name, up to \<^verbatim>\<open>.\<close> or \<^verbatim>\<open>[\<close>.
  An empty or numeric first part indexes the positional arguments, of which the
  builders pass none; anything else is a keyword.
\<close>

definition get_field_object :: "(string \<times> string) list \<Rightarrow> string \<Rightarrow> exn + (string \<times> string)" where
  "get_field_object kwargs name =
     (let first = takeWhile (\<lambda>c. c \<noteq> CHR ''.'' \<and> c \<noteq> CHR ''['') name;
          rest = dropWhile (\<lambda>c. c \<noteq> CHR ''.'' \<and> c \<noteq> CHR ''['') name
      in if first = [] then
           Inl (IndexError ''Replacement index 0 out of range for positional args tuple'')
         else if list_all is_digit first then
           (if digits_value first > PY_SSIZE_T_MAX then
              Inl (ValueError ''Too many decimal digits in format string'')
            else Inl (IndexError (''Replacement index '' @ str_index (digits_value first)
                         @ '' out of range for positional args tuple'')))
         else (case map_of kwargs first of
                 None \<Rightarrow> Inl (KeyError first)
               | Some obj \<Rightarrow> Inr (obj, rest)))"

definition output_markup :: "'r runtime \<Rightarrow> (string \<times> string) list \<Rightarrow> field \<Rightarrow> exn + string" where
  "output_markup rt kwargs f =
     (case get_field_object kwargs (field_name f) of
        Inl e \<Rightarrow> Inl e
      | Inr (obj, rest) \<Rightarrow>
          if rest = [] \<and> conversion f = None \<and> format_spec f = [] then Inr obj
          else render_field rt kwargs obj rest (conversion f) (format_spec f))"

lemma scan_spec_shorter: "scan_spec n acc s = Inr (spec, rest) \<Longrightarrow> length rest < length s"
  by (induction n acc s rule: scan_spec.induct) (auto split: if_splits)

lemma scan_name_shorter:
  "scan_name acc s = Inr (name, c, rest) \<Longrightarrow> length rest < length s"
  "scan_index acc s = Inr (name, c, rest) \<Longrightarrow> length rest < length s"
  by (induction acc s and acc s rule: scan_name_scan_index.induct) (auto split: if_splits)

lemma map_sum_id_Inr: "map_sum id g x = Inr y \<Longrightarrow> \<exists>z. x = Inr z \<and> y = g z"
  by (cases x) auto

lemma parse_field_shorter: "parse_field s = Inr (f, rest) \<Longrightarrow> length rest < length s"
  unfolding parse_field_def
  by (fastforce split: sum.splits if_splits list.splits prod.splits
      dest!: scan_name_shorter(1) scan_spec_shorter map_sum_id_Inr)

function build_string :: "'r runtime \<Rightarrow> (string \<times> string) list \<Rightarrow> string \<Rightarrow> exn + string" where
  "build_string rt kwargs [] = Inr []"
| "build_string rt kwargs (c # cs) =
     (if c = CHR ''{'' then
        (case cs of
           [] \<Rightarrow> Inl (ValueError (''Single '' @ apos @ ''{'' @ apos @ '' encountered in format string''))
         | d # ds \<Rightarrow>
             if d = CHR ''{'' then map_sum id ((#) c) (build_string rt kwargs ds)
             else
               (case parse_field cs of
                  Inl e \<Rightarrow> Inl e
                | Inr (f, rest) \<Rightarrow>
                    (case output_markup rt kwargs f of
                       Inl e \<Rightarrow> Inl e
                     | Inr text \<Rightarrow> map_sum id ((@) text) (build_string rt kwargs rest))))
      else if c = CHR ''}'' then
        (case cs of
           [] \<Rightarrow> Inl (ValueError (''Single '' @ apos @ ''}'' @ apos @ '' encountered in format string''))
         | d # ds \<Rightarrow>
             if d = CHR ''}'' then map_sum id ((#) c) (build_string rt kwargs ds)
             else Inl (ValueError (''Single '' @ apos @ ''}'' @ apos @ '' encountered in format string'')))
      else map_sum id ((#) c) (build_string rt kwargs cs))"
  by pat_completeness auto
termination
  by (relation "measure (\<lambda>(rt, kwargs, s). length s)") (auto dest: parse_field_shorter)

text \<open>\<^verbatim>\<open>template.format(**kwargs)\<close>\<close>

definition str_format :: "'r runtime \<Rightarrow> string \<Rightarrow> (string \<times> string) list \<Rightarrow> exn + string" where
  "str_format rt template kwargs = build_string rt kwargs template"

section \<open>The default templates (\<^verbatim>\<open>game/core/templates.py\<close>)\<close>

text \<open>
  The system template, line by line as in the source: the lines up to
  \<^verbatim>\<open>Respond in JSON format:\<close>, the ten lines of the response format, and
  the example response.
\<close>

definition system_template_intro :: "string list" where
  \<open>system_template_intro =
     [''You are an agent with the following characteristics:\<newline>'',
      ''{character_info}\<newline>'',
      ''\<newline>'',
      ''Environment Description:\<newline>'',
      ''{world_description}\<newline>'',
      ''\<newline>'',
      ''The environment provides the following state information:\<newline>'',
      ''{state_descriptions}\<newline>'',
      ''\<newline>'',
      ''You will also be provided with a history of actions you have previuosly taken and their outputs and outcomes.\<newline>'',
      ''\<newline>'',
      ''You have access to these actions:\<newline>'',
      ''{available_actions}\<newline>'',
      ''\<newline>'',
      ''Follow these guidelines:\<newline>'',
      ''{agent_guidelines}\<newline>'',
      ''\<newline>'',
      ''When planning actions:\<newline>'',
      ''1. First, analyze the current state and history\<newline>'',
      ''2. Think through what needs to be accomplished considering the environment constraints\<newline>'',
      ''3. Plan a sequence of actions to achieve your goal\<newline>'',
      ''4. Explain your reasoning and strategy\<newline>'',
      ''\<newline>'',
      ''Respond in JSON format:\<newline>'']\<close>

definition system_template_format :: "string list" where
  \<open>system_template_format =
     [''{\<newline>'',
      ''    "reasoning": "Detailed explanation of your thought process and overall strategy",\<newline>'',
      ''    "plan": [\<newline>'',
      ''        {{\<newline>'',
      ''            "reasoning": "Specific reasoning for this step",\<newline>'',
      ''            "action": "name_of_action",\<newline>'',
      ''            "parameters": {{}}\<newline>'',
      ''        }}\<newline>'',
      ''    ]\<newline>'',
      ''}\<newline>'']\<close>

definition system_template_example :: "string list" where
  \<open>system_template_example =
     [''\<newline>'',
      ''Example response:\<newline>'',
      ''{\<newline>'',
      ''    "reasoning": "Given the Twitter platform constraints and current engagement metrics, \<newline>'',
      ''                 we need to carefully time and structure our content for maximum impact.",\<newline>'',
      ''    "plan": [\<newline>'',
      ''        {\<newline>'',
      ''            "reasoning": "First analyze recent trending topics in our niche",\<newline>'',
      ''            "action": "analyze_trends",\<newline>'',
      ''            "parameters": {"topics": ["tech", "AI"], "timeframe": "24h"}\<newline>'',
      ''        },\<newline>'',
      ''        {\<newline>'',
      ''            "reasoning": "Draft and post content when our audience is most active",\<newline>'',
      ''            "action": "post_tweet",\<newline>'',
      ''            "parameters": {"content": "...", "schedule": "optimal_time"}\<newline>'',
      ''        }\<newline>'',
      ''    ]\<newline>'',
      ''}'']\<close>

definition DEFAULT_SYSTEM_TEMPLATE :: string where
  "DEFAULT_SYSTEM_TEMPLATE =
     concat (system_template_intro @ system_template_format @ system_template_example)"

definition DEFAULT_USER_TEMPLATE :: string where
  \<open>DEFAULT_USER_TEMPLATE =
     ''Current State:\<newline>'' @
     ''{state}\<newline>'' @
     ''\<newline>'' @
     ''Action History:\<newline>'' @
     ''{action_history}\<newline>'' @
     ''\<newline>'' @
     ''Goal:\<newline>'' @
     ''{goal}\<newline>'' @
     ''\<newline>'' @
     ''Given this, think through what needs to be accomplished and develop a plan of action. Explain your overall strategy and then break it down into specific steps.''\<close>

section \<open>The agent (\<^verbatim>\<open>game/core/agent.py\<close>)\<close>

subsection \<open>Collaborators and the agent's fields\<close>

record 'w environment =
  get_state :: "('w, json) io"
  get_state_descriptions :: "('w, json) io"
  get_world_description :: "('w, string) io"

text \<open>
  The provider as the agent calls it: \<^verbatim>\<open>generate_response(system_prompt=...,
  user_prompt=...)\<close>, of which the agent reads the \<^verbatim>\<open>content\<close>.
\<close>

record 'w llm =
  generate_response :: "string \<Rightarrow> string \<Rightarrow> ('w, string) io"

text \<open>
  A value stored in a history entry: a decoded JSON value (the name, the reasoning,
  the parameters) or what a handler returned.
\<close>

datatype 'r pyval = Decoded json | Returned 'r

type_synonym 'r history_entry = "(string \<times> 'r pyval) list"

record 'r action_result =
  success :: bool
  message :: string
  data :: "'r option"

record ('w, 'r) agent =
  llm_provider :: "'w llm"
  environment :: "'w environment"
  system_template :: string
  user_template :: string
  character_info :: "(string \<times> string) list"
  agent_guidelines :: "string list"
  action_registry :: "('w, 'r) registry"
  action_history :: "'r history_entry list"
  max_history :: int

subsection \<open>Python helpers\<close>

text \<open>\<^verbatim>\<open>d[key]\<close>\<close>

definition getitem :: "(string \<times> 'a) list \<Rightarrow> string \<Rightarrow> exn + 'a" where
  "getitem d key = (case map_of d key of None \<Rightarrow> Inl (KeyError key) | Some v \<Rightarrow> Inr v)"

text \<open>\<^verbatim>\<open>sep.join(xs)\<close>\<close>

fun join :: "string \<Rightarrow> string list \<Rightarrow> string" where
  "join sep [] = []"
| "join sep [x] = x"
| "join sep (x # y # ys) = x @ sep @ join sep (y # ys)"

text \<open>
  \<^verbatim>\<open>xs[-m:]\<close>: the last \<open>m\<close> elements for a positive \<open>m\<close> (all of them when there
  are fewer), the whole list for \<open>m = 0\<close>, and the list without its first \<open>-m\<close>
  elements for a negative \<open>m\<close>.
\<close>

definition last_slice :: "int \<Rightarrow> 'a list \<Rightarrow> 'a list" where
  "last_slice m xs = (if 0 < m then drop (length xs - nat m) xs else drop (nat (- m)) xs)"

text \<open>\<^verbatim>\<open>str(v)\<close>, as an f-string field shows a value.\<close>

definition str_json :: "'r runtime \<Rightarrow> json \<Rightarrow> string" where
  "str_json rt v =
     (case v of
        JStr s \<Rightarrow> s
      | JNull \<Rightarrow> ''None''
      | JBool b \<Rightarrow> (if b then ''True'' else ''False'')
      | _ \<Rightarrow> repr_json rt v)"

definition format_value :: "'r runtime \<Rightarrow> 'r pyval \<Rightarrow> string" where
  "format_value rt v = (case v of Decoded j \<Rightarrow> str_json rt j | Returned r \<Rightarrow> str_result rt r)"

definition type_name :: "json \<Rightarrow> string" where
  "type_name v =
     (case v of
        JNull \<Rightarrow> ''NoneType''
      | JBool b \<Rightarrow> ''bool''
      | JInt i \<Rightarrow> ''int''
      | JFloat f \<Rightarrow> ''float''
      | JStr s \<Rightarrow> ''str''
      | JArr xs \<Rightarrow> ''list''
      | JObj kvs \<Rightarrow> ''dict'')"

subsection \<open>Prompt construction\<close>

text \<open>One line of \<^verbatim>\<open>_format_action_history\<close>: the f-string reads four keys of the entry, in this order.\<close>

definition format_entry :: "'r runtime \<Rightarrow> 'r history_entry \<Rightarrow> exn + string" where
  "format_entry rt action =
     (case getitem action ''name'' of
        Inl e \<Rightarrow> Inl e
      | Inr name \<Rightarrow>
     (case getitem action ''timestamp'' of
        Inl e \<Rightarrow> Inl e
      | Inr timestamp \<Rightarrow>
     (case getitem action ''reasoning'' of
        Inl e \<Rightarrow> Inl e
      | Inr reasoning \<Rightarrow>
     (case getitem action ''result'' of
        Inl e \<Rightarrow> Inl e
      | Inr result \<Rightarrow>
          Inr (''- '' @ format_value rt name @ '' ('' @ format_value rt timestamp @ ''): ''
               @ format_value rt reasoning @ ''\<newline>  Result: '' @ format_value rt result)))))"

text \<open>The generator of the lines: the first entry that raises ends it.\<close>

fun format_entries :: "'r runtime \<Rightarrow> 'r history_entry list \<Rightarrow> exn + string list" where
  "format_entries rt [] = Inr []"
| "format_entries rt (action # rest) =
     (case format_entry rt action of
        Inl e \<Rightarrow> Inl e
      | Inr line \<Rightarrow>
          (case format_entries rt rest of
             Inl e \<Rightarrow> Inl e
           | Inr lines \<Rightarrow> Inr (line # lines)))"

definition format_action_history :: "'r runtime \<Rightarrow> ('w, 'r) agent \<Rightarrow> exn + string" where
  "format_action_history rt a =
     (if action_history a = [] then Inr ''No previous actions taken.''
      else (case format_entries rt (last_slice (max_history a) (action_history a)) of
              Inl e \<Rightarrow> Inl e
            | Inr lines \<Rightarrow> Inr (join ''\<newline>'' lines)))"

definition build_user_prompt :: "'r runtime \<Rightarrow> ('w, 'r) agent \<Rightarrow> json \<Rightarrow> exn + string" where
  "build_user_prompt rt a state =
     (case format_action_history rt a of
        Inl e \<Rightarrow> Inl e
      | Inr history \<Rightarrow>
          str_format rt (user_template a)
            [(''state'', json_dumps rt state), (''action_history'', history)])"

text \<open>The exported descriptions and the character information as the values \<^verbatim>\<open>json.dumps\<close> receives.\<close>

definition description_json :: "action_description \<Rightarrow> json" where
  "description_json d =
     JObj [(''description'', JStr (d_description d)),
           (''required_params'', JObj (map (\<lambda>(k, v). (k, JStr v)) (d_required_params d))),
           (''example'', JObj (d_example d))]"

definition build_system_prompt :: "'r runtime \<Rightarrow> ('w, 'r) agent \<Rightarrow> ('w, string) io" where
  "build_system_prompt rt a w =
     (let action_descriptions = get_action_descriptions (action_registry a) in
      case get_state_descriptions (environment a) w of
        (Inl e, w1) \<Rightarrow> (Inl e, w1)
      | (Inr state_descriptions, w1) \<Rightarrow>
     (case get_world_description (environment a) w1 of
        (Inl e, w2) \<Rightarrow> (Inl e, w2)
      | (Inr world_description, w2) \<Rightarrow>
          (str_format rt (system_template a)
             [(''character_info'', json_dumps rt (JObj (map (\<lambda>(k, v). (k, JStr v)) (character_info a)))),
              (''world_description'', world_description),
              (''state_descriptions'', json_dumps rt state_descriptions),
              (''available_actions'',
                 json_dumps rt (JObj (map (\<lambda>(name, d). (name, description_json d)) action_descriptions))),
              (''agent_guidelines'', join ''\<newline>'' (map (\<lambda>g. ''- '' @ g) (agent_guidelines a)))],
           w2)))"

subsection \<open>Registration and execution\<close>

definition register_action ::
  "('w, 'r) agent \<Rightarrow> string \<Rightarrow> ((string \<times> json) list \<Rightarrow> ('w, 'r) io) \<Rightarrow> string
     \<Rightarrow> (string \<times> string) list \<Rightarrow> (string \<times> json) list \<Rightarrow> ('w, 'r) agent" where
  "register_action a name f descr params ex =
     a\<lparr>action_registry :=
         register (action_registry a) name
           \<lparr>func = f, description = descr, required_params = params, example = ex\<rparr>\<rparr>"

text \<open>
  \<^verbatim>\<open>self.action_registry.get_action(action_name)\<close> on a decoded value: the
  registry's keys are strings, so a list or a dictionary cannot be hashed and any
  other value that is not a string is found absent.
\<close>

definition lookup_action :: "('w, 'r) registry \<Rightarrow> json \<Rightarrow> exn + ('w, 'r) action option" where
  "lookup_action actions name =
     (case name of
        JStr s \<Rightarrow> Inr (get_action actions s)
      | JArr xs \<Rightarrow> Inl (TypeError (''unhashable type: '' @ apos @ ''list'' @ apos))
      | JObj kvs \<Rightarrow> Inl (TypeError (''unhashable type: '' @ apos @ ''dict'' @ apos))
      | _ \<Rightarrow> Inr None)"

definition make_entry :: "json \<Rightarrow> (string \<times> json) list \<Rightarrow> json \<Rightarrow> 'r \<Rightarrow> 'r history_entry" where
  "make_entry action_name kwargs reasoning result =
     [(''name'', Decoded action_name),
      (''parameters'', Decoded (JObj kwargs)),
      (''reasoning'', Decoded reasoning),
      (''result'', Returned result)]"

text \<open>
  \<^verbatim>\<open>execute_action(action_name, reasoning, **kwargs)\<close> returns its result or raises,
  with the agent and the world as they are afterwards. The lookup stands before
  the \<^verbatim>\<open>try\<close>; the \<^verbatim>\<open>except Exception\<close> clause lets an exception that is not
  an \<^verbatim>\<open>Exception\<close> pass.
\<close>

definition execute_action ::
  "'r runtime \<Rightarrow> ('w, 'r) agent \<Rightarrow> json \<Rightarrow> json \<Rightarrow> (string \<times> json) list \<Rightarrow> 'w
     \<Rightarrow> (exn + 'r action_result) \<times> ('w, 'r) agent \<times> 'w" where
  "execute_action rt a action_name reasoning kwargs w =
     (case lookup_action (action_registry a) action_name of
        Inl e \<Rightarrow> (Inl e, a, w)
      | Inr None \<Rightarrow>
          (Inr \<lparr>success = False,
                message = ''Action '' @ apos @ str_json rt action_name @ apos @ '' not found'',
                data = None\<rparr>, a, w)
      | Inr (Some action) \<Rightarrow>
          (case func action kwargs w of
             (Inr result, w1) \<Rightarrow>
               (let appended = action_history a @ [make_entry action_name kwargs reasoning result];
                    kept = (if int (length appended) > max_history a then tl appended else appended)
                in (Inr \<lparr>success = True, message = ''Action executed successfully'', data = Some result\<rparr>,
                    a\<lparr>action_history := kept\<rparr>, w1))
           | (Inl e, w1) \<Rightarrow>
               if is_Exception e then
                 (Inr \<lparr>success = False, message = ''Action failed: '' @ str_exn e, data = None\<rparr>, a, w1)
               else (Inl e, a, w1)))"

subsection \<open>Next-action resolution\<close>

definition get_next_action :: "'r runtime \<Rightarrow> ('w, 'r) agent \<Rightarrow> json \<Rightarrow> ('w, json) io" where
  "get_next_action rt a state w =
     (case build_system_prompt rt a w of
        (Inl e, w1) \<Rightarrow> (Inl e, w1)
      | (Inr system_prompt, w1) \<Rightarrow>
     (case build_user_prompt rt a state of
        Inl e \<Rightarrow> (Inl e, w1)
      | Inr user_prompt \<Rightarrow>
     (case generate_response (llm_provider a) system_prompt user_prompt w1 of
        (Inl e, w2) \<Rightarrow> (Inl e, w2)
      | (Inr content, w2) \<Rightarrow>
     (case json_loads rt content of
        Inr action_data \<Rightarrow> (Inr action_data, w2)
      | Inl (JSONDecodeError m) \<Rightarrow>
          (Inl (ValueError ''LLM response was not in the expected JSON format''), w2)
      | Inl e \<Rightarrow> (Inl e, w2)))))"

subsection \<open>The run loop\<close>

text \<open>
  How \<^verbatim>\<open>run_loop\<close> ends. It returns nothing; its three ways of returning are told
  apart by what it prints before the \<^verbatim>\<open>break\<close>: \<^verbatim>\<open>Action failed: <message>\<close>
  (\<open>StoppedOnFailure\<close>), \<^verbatim>\<open>Error in agent loop: <exception>\<close> (\<open>StoppedOnError\<close>),
  or nothing when the \<^verbatim>\<open>for\<close> runs out (\<open>Completed\<close>). \<open>Propagated\<close> is an
  exception that leaves \<^verbatim>\<open>run_loop\<close>.
\<close>

datatype outcome =
    Completed
  | StoppedOnFailure string
  | StoppedOnError exn
  | Propagated exn

text \<open>
  The handler \<^verbatim>\<open>except Exception as e: print(...); break\<close> of the loop body. An
  exception that is not an instance of \<^verbatim>\<open>Exception\<close> passes it, and so does what
  the \<^verbatim>\<open>print\<close> inside it raises.
\<close>

definition loop_except :: "'r runtime \<Rightarrow> exn \<Rightarrow> outcome" where
  "loop_except rt e =
     (if is_Exception e then
        (case py_print rt (''Error in agent loop: '' @ str_exn e) of
           Inl e2 \<Rightarrow> Propagated e2
         | Inr u \<Rightarrow> StoppedOnError e)
      else Propagated e)"

text \<open>
  \<^verbatim>\<open>action_data.pop("action")\<close> and \<^verbatim>\<open>action_data.pop("reasoning", "")\<close>:
  the name, the reasoning and what remains of the decoded object. A decoded value
  that is not an object has no such \<^verbatim>\<open>pop\<close>.
\<close>

definition extract_action :: "json \<Rightarrow> exn + (json \<times> json \<times> (string \<times> json) list)" where
  "extract_action action_data =
     (case action_data of
        JObj kvs \<Rightarrow>
          (case map_of kvs ''action'' of
             None \<Rightarrow> Inl (KeyError ''action'')
           | Some action_name \<Rightarrow>
               (let kvs1 = AList.delete ''action'' kvs;
                    reasoning = (case map_of kvs1 ''reasoning'' of None \<Rightarrow> JStr [] | Some r \<Rightarrow> r);
                    kvs2 = AList.delete ''reasoning'' kvs1
                in Inr (action_name, reasoning, kvs2)))
      | JArr xs \<Rightarrow>
          Inl (TypeError (apos @ ''str'' @ apos @ '' object cannot be interpreted as an integer''))
      | _ \<Rightarrow>
          Inl (AttributeError (apos @ type_name action_data @ apos @ '' object has no attribute ''
                 @ apos @ ''pop'' @ apos)))"

text \<open>
  The call \<^verbatim>\<open>self.execute_action(action_name, reasoning=reasoning, **action_data)\<close>:
  a remaining key that names a parameter of \<^verbatim>\<open>execute_action\<close> would bind it a
  second time, which raises before the body runs; the first such key is reported.
\<close>

definition call_execute_action ::
  "'r runtime \<Rightarrow> ('w, 'r) agent \<Rightarrow> json \<Rightarrow> json \<Rightarrow> (string \<times> json) list \<Rightarrow> 'w
     \<Rightarrow> (exn + 'r action_result) \<times> ('w, 'r) agent \<times> 'w" where
  "call_execute_action rt a action_name reasoning action_data w =
     (case find (\<lambda>k. k = ''action_name'' \<or> k = ''self'') (map fst action_data) of
        Some k \<Rightarrow>
          (Inl (TypeError (''Agent.execute_action() got multiple values for argument ''
                  @ apos @ k @ apos)), a, w)
      | None \<Rightarrow> execute_action rt a action_name reasoning action_data w)"

text \<open>
  One iteration of the \<^verbatim>\<open>for\<close> loop, with the step at which it ended: an
  exception raised inside the \<^verbatim>\<open>try\<close> by one of the four steps or by the
  \<^verbatim>\<open>print\<close> that reports a failure result, a failure result of
  \<^verbatim>\<open>execute_action\<close> that was reported, or a success, after which the loop goes
  on. The pause \<^verbatim>\<open>asyncio.sleep(1)\<close> changes nothing here.
\<close>

datatype stage = StateFetch | Resolution | Extraction | Execution | Report

datatype iteration =
    Raised stage exn
  | Failed string
  | Succeeded

definition loop_body ::
  "'r runtime \<Rightarrow> ('w, 'r) agent \<Rightarrow> 'w \<Rightarrow> iteration \<times> ('w, 'r) agent \<times> 'w" where
  "loop_body rt a w =
     (case get_state (environment a) w of
        (Inl e, w1) \<Rightarrow> (Raised StateFetch e, a, w1)
      | (Inr state, w1) \<Rightarrow>
     (case get_next_action rt a state w1 of
        (Inl e, w2) \<Rightarrow> (Raised Resolution e, a, w2)
      | (Inr action_data, w2) \<Rightarrow>
     (case extract_action action_data of
        Inl e \<Rightarrow> (Raised Extraction e, a, w2)
      | Inr (action_name, reasoning, kwargs) \<Rightarrow>
     (case call_execute_action rt a action_name reasoning kwargs w2 of
        (Inl e, a', w3) \<Rightarrow> (Raised Execution e, a', w3)
      | (Inr result, a', w3) \<Rightarrow>
          if \<not> success result then
            (case py_print rt (''Action failed: '' @ message result) of
               Inl e \<Rightarrow> (Raised Report e, a', w3)
             | Inr u \<Rightarrow> (Failed (message result), a', w3))
          else (Succeeded, a', w3)))))"

text \<open>
  \<^verbatim>\<open>for step in range(max_steps)\<close>: the iterations left, and with the way the loop
  ends the number of iterations it began. A raised exception meets
  \<^verbatim>\<open>except Exception\<close>, a failure result the \<^verbatim>\<open>break\<close> after the first
  \<^verbatim>\<open>print\<close>.
\<close>

fun run_steps ::
  "'r runtime \<Rightarrow> nat \<Rightarrow> ('w, 'r) agent \<Rightarrow> 'w \<Rightarrow> outcome \<times> nat \<times> ('w, 'r) agent \<times> 'w" where
  "run_steps rt 0 a w = (Completed, 0, a, w)"
| "run_steps rt (Suc n) a w =
     (case loop_body rt a w of
        (Raised st e, a', w') \<Rightarrow> (loop_except rt e, 1, a', w')
      | (Failed msg, a', w') \<Rightarrow> (StoppedOnFailure msg, 1, a', w')
      | (Succeeded, a', w') \<Rightarrow>
          (case run_steps rt n a' w' of (out, k, a'', w'') \<Rightarrow> (out, Suc k, a'', w'')))"

definition run_loop ::
  "'r runtime \<Rightarrow> ('w, 'r) agent \<Rightarrow> int \<Rightarrow> 'w \<Rightarrow> outcome \<times> nat \<times> ('w, 'r) agent \<times> 'w" where
  "run_loop rt a max_steps w = run_steps rt (nat max_steps) a w"

text \<open>\<^verbatim>\<open>Agent(llm_provider, environment)\<close> with every other argument at its default.\<close>

definition new_agent :: "'w llm \<Rightarrow> 'w environment \<Rightarrow> ('w, 'r) agent" where
  "new_agent provider env =
     \<lparr>llm_provider = provider,
      environment = env,
      system_template = DEFAULT_SYSTEM_TEMPLATE,
      user_template = DEFAULT_USER_TEMPLATE,
      character_info = [],
      agent_guidelines = [],
      action_registry = [],
      action_history = [],
      max_history = 5\<rparr>"

subsection \<open>Sequences of calls and of iterations\<close>

text \<open>
  A sequence of calls of \<^verbatim>\<open>execute_action\<close>, each a name, a reasoning and the
  keyword arguments: the results in order, and the agent and the world after the
  last one. A call that raises is recorded and the sequence goes on, as a caller
  that catches the exception would.
\<close>

fun execute_all ::
  "'r runtime \<Rightarrow> ('w, 'r) agent \<Rightarrow> (json \<times> json \<times> (string \<times> json) list) list \<Rightarrow> 'w
     \<Rightarrow> (exn + 'r action_result) list \<times> ('w, 'r) agent \<times> 'w" where
  "execute_all rt a [] w = ([], a, w)"
| "execute_all rt a ((action_name, reasoning, kwargs) # calls) w =
     (case execute_action rt a action_name reasoning kwargs w of
        (r, a1, w1) \<Rightarrow>
          (case execute_all rt a1 calls w1 of (rs, a2, w2) \<Rightarrow> (r # rs, a2, w2)))"

definition succeeded :: "exn + 'r action_result \<Rightarrow> bool" where
  "succeeded r = (case r of Inl e \<Rightarrow> False | Inr result \<Rightarrow> success result)"

definition success_result :: "'r \<Rightarrow> exn + 'r action_result" where
  "success_result v = Inr \<lparr>success = True, message = ''Action executed successfully'', data = Some v\<rparr>"

definition history_bounded :: "('w, 'r) agent \<Rightarrow> bool" where
  "history_bounded a = (int (length (action_history a)) \<le> max_history a)"



section \<open>Concrete collaborators\<close>

text \<open>
  A small world for the concrete runs below: the world is a counter of the
  provider's and the handlers' calls, handler results are strings, the standard
  output is an ASCII stream, and the JSON codec is given on the provider replies
  that the runs use: four objects, a text of a thousand opening brackets, on which
  the decoder of Python 3.11 exceeds its recursion limit, and text that it rejects
  at the first character.
\<close>

definition wave_reply :: string where
  \<open>wave_reply = ''{"action":"wave","reasoning":"greet"}''\<close>

definition unknown_reply :: string where
  \<open>unknown_reply = ''{"action":"nonexistent"}''\<close>

definition keyless_reply :: string where
  \<open>keyless_reply = ''{"reasoning":"none"}''\<close>

definition quit_reply :: string where
  \<open>quit_reply = ''{"action":"quit"}''\<close>

text \<open>
  What the encoder of an ASCII stream raises on text with a character outside
  ASCII: it names the first such character and its position, or the positions of
  the first run of them.
\<close>

definition ascii_encode_error :: "string \<Rightarrow> exn" where
  "ascii_encode_error s =
     (let start = length (takeWhile (\<lambda>c. (of_char c :: int) < 128) s);
          run = takeWhile (\<lambda>c. 128 \<le> (of_char c :: int)) (drop start s)
      in OtherException ''UnicodeEncodeError''
           (apos @ ''ascii'' @ apos @ '' codec can'' @ apos @ ''t encode ''
            @ (if length run = 1 then
                 ''character '' @ apos
                   @ [backslash, CHR ''x'', hex_digit (nat ((of_char (hd run) :: int) div 16)),
                      hex_digit (nat ((of_char (hd run) :: int) mod 16))]
                   @ apos @ '' in position '' @ str_index (int start)
               else ''characters in position '' @ str_index (int start) @ ''-''
                   @ str_index (int (start + length run) - 1))
            @ '': ordinal not in range(128)''))"

definition deep_reply :: string where
  "deep_reply = replicate 1000 (CHR ''['')"

definition demo_rt :: "string runtime" where
  "demo_rt =
     \<lparr>json_loads = (\<lambda>s.
          if s = wave_reply then Inr (JObj [(''action'', JStr ''wave''), (''reasoning'', JStr ''greet'')])
          else if s = unknown_reply then Inr (JObj [(''action'', JStr ''nonexistent'')])
          else if s = keyless_reply then Inr (JObj [(''reasoning'', JStr ''none'')])
          else if s = quit_reply then Inr (JObj [(''action'', JStr ''quit'')])
          else if s = deep_reply then
            Inl (OtherException ''RecursionError''
                  ''maximum recursion depth exceeded while decoding a JSON array from a unicode string'')
          else Inl (JSONDecodeError ''Expecting value: line 1 column 1 (char 0)'')),
      json_dumps = (\<lambda>j. ''{}''),
      repr_json = (\<lambda>j. ''?''),
      str_result = (\<lambda>r. r),
      render_field = (\<lambda>kwargs obj rest conv spec. Inr obj),
      stdout_error = (\<lambda>s. Some (ascii_encode_error s))\<rparr>"

definition demo_env :: "nat environment" where
  "demo_env =
     \<lparr>get_state = (\<lambda>w. (Inr (JObj []), w)),
      get_state_descriptions = (\<lambda>w. (Inr (JObj []), w)),
      get_world_description = (\<lambda>w. (Inr ''a room'', w))\<rparr>"


definition demo_llm :: "string \<Rightarrow> nat llm" where
  "demo_llm reply = \<lparr>generate_response = (\<lambda>system_prompt user_prompt w. (Inr reply, Suc w))\<rparr>"

definition returning :: "string \<Rightarrow> (string \<times> json) list \<Rightarrow> (nat, string) io" where
  "returning v kwargs w = (Inr v, Suc w)"

definition raising :: "exn \<Rightarrow> (string \<times> json) list \<Rightarrow> (nat, string) io" where
  "raising e kwargs w = (Inl e, Suc w)"

text \<open>
  An agent with templates of its own, one action \<^verbatim>\<open>wave\<close> that returns
  \<^verbatim>\<open>hello\<close>, one action \<^verbatim>\<open>trip\<close> that raises a \<^verbatim>\<open>RuntimeError\<close> and one action
  \<^verbatim>\<open>quit\<close> that calls \<^verbatim>\<open>sys.exit()\<close>.
\<close>

definition demo_agent :: "string \<Rightarrow> int \<Rightarrow> (nat, string) agent" where
  "demo_agent reply m =
     register_action
       (register_action
         (register_action
           ((new_agent (demo_llm reply) demo_env)
              \<lparr>system_template := ''Actions: {available_actions}'',
               user_template := ''State: {state} History: {action_history}'',
               max_history := m\<rparr>)
           ''wave'' (returning ''hello'') ''Wave a hand'' [] [])
         ''trip'' (raising (OtherException ''RuntimeError'' ''boom'')) ''Always fails'' [] [])
       ''quit'' (raising (BaseOnly ''SystemExit'' [])) ''Leave'' [] []"

text \<open>Three calls of \<^verbatim>\<open>wave\<close>, told apart by their reasoning.\<close>

definition three_calls :: "(json \<times> json \<times> (string \<times> json) list) list" where
  "three_calls = [(JStr ''wave'', JStr ''X'', []), (JStr ''wave'', JStr ''Y'', []), (JStr ''wave'', JStr ''Z'', [])]"

section \<open>Properties of \<^verbatim>\<open>str.format\<close>\<close>

text \<open>
  A template that renders on its own renders the same way in front of any other
  text: a scan that ended well never looked past its last character. So a template
  can be checked line by line, and an error after lines that render is the error
  of the whole.
\<close>

lemma scan_spec_append:
  "scan_spec n acc s = Inr (spec, rest) \<Longrightarrow> scan_spec n acc (s @ t) = Inr (spec, rest @ t)"
  by (induction n acc s rule: scan_spec.induct) (auto split: if_splits)

lemma scan_name_append:
  "scan_name acc s = Inr (nm, c, rest) \<Longrightarrow> scan_name acc (s @ t) = Inr (nm, c, rest @ t)"
  "scan_index acc s = Inr (nm, c, rest) \<Longrightarrow> scan_index acc (s @ t) = Inr (nm, c, rest @ t)"
  by (induction acc s and acc s rule: scan_name_scan_index.induct) (auto split: if_splits)

lemma parse_field_append:
  assumes "parse_field s = Inr (f, rest)"
  shows "parse_field (s @ t) = Inr (f, rest @ t)"
proof -
  from assms obtain nm c rest0 where name: "scan_name [] s = Inr (nm, c, rest0)"
    by (auto simp: parse_field_def split: sum.splits)
  note name' = scan_name_append(1) [OF name, of t]
  show ?thesis
  proof (cases "c = CHR ''}''")
    case True
    with assms name name' show ?thesis by (simp add: parse_field_def)
  next
    case False
    note not_close = this
    show ?thesis
    proof (cases "c = CHR ''!''")
      case False
      with not_close assms name obtain spec where
        "scan_spec 1 [] rest0 = Inr (spec, rest)" and "f = \<lparr>field_name = nm, conversion = None, format_spec = spec\<rparr>"
        by (auto simp: parse_field_def dest!: map_sum_id_Inr)
      with False not_close name' scan_spec_append [of 1 "[]" rest0 spec rest t] show ?thesis
        by (simp add: parse_field_def)
    next
      case True
      show ?thesis
      proof (cases rest0)
        case Nil
        with True assms name show ?thesis by (simp add: parse_field_def)
      next
        case (Cons conv rest1)
        note rest0 = this
        show ?thesis
        proof (cases rest1)
          case Nil
          with True rest0 assms name show ?thesis by (simp add: parse_field_def)
        next
          case (Cons c2 rest2)
          show ?thesis
          proof (cases "c2 = CHR ''}''")
            case True
            with \<open>c = CHR ''!''\<close> rest0 Cons assms name name' show ?thesis
              by (simp add: parse_field_def)
          next
            case False
            with \<open>c = CHR ''!''\<close> rest0 Cons assms name obtain spec where
              colon: "c2 = CHR '':''" and
              "scan_spec 1 [] rest2 = Inr (spec, rest)" and
              "f = \<lparr>field_name = nm, conversion = Some conv, format_spec = spec\<rparr>"
              by (auto simp: parse_field_def split: if_splits dest!: map_sum_id_Inr)
            with False \<open>c = CHR ''!''\<close> rest0 Cons name' scan_spec_append [of 1 "[]" rest2 spec rest t]
            show ?thesis by (simp add: parse_field_def)
          qed
        qed
      qed
    qed
  qed
qed

lemma build_string_append:
  "build_string rt kw s = Inr out \<Longrightarrow>
     build_string rt kw (s @ t) = map_sum id ((@) out) (build_string rt kw t)"
proof (induction rt kw s arbitrary: out rule: build_string.induct)
  case (1 rt kwargs)
  then show ?case by (cases "build_string rt kwargs t") simp_all
next
  case (2 rt kwargs c cs)
  show ?case
  proof (cases "c = CHR ''{''")
    case True
    note open_brace = this
    show ?thesis
    proof (cases cs)
      case Nil
      with True "2.prems" show ?thesis by simp
    next
      case (Cons d ds)
      show ?thesis
      proof (cases "d = CHR ''{''")
        case True
        with open_brace Cons "2.prems" obtain out1 where
          o1: "build_string rt kwargs ds = Inr out1" and out: "out = c # out1"
          by (auto dest!: map_sum_id_Inr)
        from "2.IH"(1) [OF open_brace Cons True o1]
        have "build_string rt kwargs (ds @ t) = map_sum id ((@) out1) (build_string rt kwargs t)" .
        with open_brace Cons True out show ?thesis
          by (cases "build_string rt kwargs t") simp_all
      next
        case False
        with open_brace Cons "2.prems" obtain f rest rendered out1 where
          pf: "parse_field cs = Inr (f, rest)" and om: "output_markup rt kwargs f = Inr rendered"
          and o1: "build_string rt kwargs rest = Inr out1" and out: "out = rendered @ out1"
          by (auto split: sum.splits dest!: map_sum_id_Inr)
        from "2.IH"(2) [OF open_brace Cons False pf refl om o1]
        have "build_string rt kwargs (rest @ t) = map_sum id ((@) out1) (build_string rt kwargs t)" .
        moreover from parse_field_append [OF pf, of t]
        have "parse_field (d # ds @ t) = Inr (f, rest @ t)" by (simp add: Cons)
        ultimately show ?thesis
          using open_brace Cons False om out
          by (cases "build_string rt kwargs t") simp_all
      qed
    qed
  next
    case False
    note not_open = this
    show ?thesis
    proof (cases "c = CHR ''}''")
      case True
      with not_open "2.prems" obtain ds out1 where
        cs: "cs = CHR ''}'' # ds" and o1: "build_string rt kwargs ds = Inr out1" and out: "out = c # out1"
        by (auto split: list.splits if_splits dest!: map_sum_id_Inr)
      from "2.IH"(3) [OF not_open True cs refl o1]
      have "build_string rt kwargs (ds @ t) = map_sum id ((@) out1) (build_string rt kwargs t)" .
      with not_open True cs out show ?thesis
        by (cases "build_string rt kwargs t") simp_all
    next
      case False
      with not_open "2.prems" obtain out1 where
        o1: "build_string rt kwargs cs = Inr out1" and out: "out = c # out1"
        by (auto dest!: map_sum_id_Inr)
      from "2.IH"(4) [OF not_open False o1]
      have "build_string rt kwargs (cs @ t) = map_sum id ((@) out1) (build_string rt kwargs t)" .
      with not_open False out show ?thesis
        by (cases "build_string rt kwargs t") simp_all
    qed
  qed
qed

lemma build_string_lines_error:
  assumes "list_all (\<lambda>l. \<not> isl (build_string rt kw l)) ls"
    and "build_string rt kw t = Inl e"
  shows "build_string rt kw (concat ls @ t) = Inl e"
  using assms
proof (induction ls)
  case Nil
  then show ?case by simp
next
  case (Cons l ls)
  then obtain out where "build_string rt kw l = Inr out"
    by (cases "build_string rt kw l") auto
  from build_string_append [OF this, of "concat ls @ t"] Cons show ?case by simp
qed

section \<open>Properties of the registry\<close>

lemma map_of_register_all:
  "map_of (register_all actions regs) = map_of actions ++ map_of (rev regs)"
proof (induction regs arbitrary: actions)
  case Nil
  show ?case by simp
next
  case (Cons p regs)
  obtain name action where p: "p = (name, action)" by (cases p)
  have "map_of (register_all actions (p # regs))
      = map_of (AList.update name action actions) ++ map_of (rev regs)"
    using Cons.IH [of "register actions name action"] by (simp add: p register_def)
  also have "\<dots> = (map_of actions)(name \<mapsto> action) ++ map_of (rev regs)"
    by (simp add: update_conv')
  also have "\<dots> = map_of actions ++ map_of (rev (p # regs))"
    by (simp add: p map_add_def fun_eq_iff split: option.splits)
  finally show ?case .
qed

lemma distinct_register_all:
  "distinct (map fst actions) \<Longrightarrow> distinct (map fst (register_all actions regs))"
  by (induction regs arbitrary: actions) (auto simp: register_def distinct_update)

lemma keys_register_all:
  "fst ` set (register_all actions regs) = fst ` set actions \<union> fst ` set regs"
proof -
  have "dom (map_of (register_all actions regs)) = dom (map_of actions) \<union> dom (map_of (rev regs))"
    by (simp add: map_of_register_all Un_commute)
  then show ?thesis by (simp add: dom_map_of_conv_image_fst)
qed

lemma map_of_descriptions:
  "map_of (get_action_descriptions actions) name = map_option describe_action (map_of actions name)"
  by (induction actions) (auto simp: get_action_descriptions_def)

lemma keys_descriptions:
  "map fst (get_action_descriptions actions) = map fst actions"
  by (induction actions) (auto simp: get_action_descriptions_def)

text \<open>
  C8. After any sequence of registrations on an empty registry the export has
  exactly the distinct registered names as keys, each once; a name is exported with
  the description, the required parameters and the example of its most recent
  registration (the first match in the reversed sequence) and with nothing else,
  the handler being no field of an exported entry; lookup finds that same most
  recent action. Hence a sequence that registers a name twice gives the same
  lookup and the same exported mapping as the sequence without the earlier of the
  two registrations. So it is for \<^verbatim>\<open>wave\<close>, \<^verbatim>\<open>nod\<close>, \<^verbatim>\<open>wave\<close>: the export
  holds the second \<^verbatim>\<open>wave\<close> at the place of the first, then \<^verbatim>\<open>nod\<close>.
\<close>

theorem registry_last_registration_wins:
  fixes regs xs ys zs :: "(string \<times> ('w, 'r) action) list"
  shows "set (map fst (get_action_descriptions (register_all [] regs))) = set (map fst regs)
    \<and> distinct (map fst (get_action_descriptions (register_all [] regs)))
    \<and> map_of (get_action_descriptions (register_all [] regs)) name
           = map_option
               (\<lambda>action. \<lparr>d_description = description action,
                           d_required_params = required_params action,
                           d_example = example action\<rparr>)
               (map_of (rev regs) name)
    \<and> get_action (register_all [] regs) name = map_of (rev regs) name
    \<and> get_action (register_all [] (xs @ (n, a1) # ys @ (n, a2) # zs))
           = get_action (register_all [] (xs @ ys @ (n, a2) # zs))
    \<and> map_of (get_action_descriptions (register_all [] (xs @ (n, a1) # ys @ (n, a2) # zs)))
           = map_of (get_action_descriptions (register_all [] (xs @ ys @ (n, a2) # zs)))
    \<and> get_action_descriptions
         (register_all []
            [(''wave'', \<lparr>func = returning ''hello'', description = ''Wave a hand'',
                         required_params = [], example = []\<rparr>),
             (''nod'', \<lparr>func = returning ''yes'', description = ''Nod'',
                        required_params = [(''times'', ''how often'')], example = [(''times'', JInt 2)]\<rparr>),
             (''wave'', \<lparr>func = returning ''hi'', description = ''Wave the other hand'',
                         required_params = [(''hand'', ''which hand'')],
                         example = [(''hand'', JStr ''left'')]\<rparr>)])
         = [(''wave'', \<lparr>d_description = ''Wave the other hand'',
                         d_required_params = [(''hand'', ''which hand'')],
                         d_example = [(''hand'', JStr ''left'')]\<rparr>),
            (''nod'', \<lparr>d_description = ''Nod'', d_required_params = [(''times'', ''how often'')],
                        d_example = [(''times'', JInt 2)]\<rparr>)]
    \<and> map_option func
         (get_action
            (register_all []
               [(''wave'', \<lparr>func = returning ''hello'', description = ''Wave a hand'',
                            required_params = [], example = []\<rparr>),
                (''wave'', \<lparr>func = returning ''hi'', description = ''Wave the other hand'',
                            required_params = [(''hand'', ''which hand'')],
                            example = [(''hand'', JStr ''left'')]\<rparr>)])
            ''wave'')
         = Some (returning ''hi'')"
proof -
  have keys: "set (map fst (get_action_descriptions (register_all [] regs))) = set (map fst regs)"
    using keys_register_all [of "[]" regs] by (simp add: keys_descriptions)
  have dist: "distinct (map fst (get_action_descriptions (register_all [] regs)))"
    using distinct_register_all [of "[]" regs] by (simp add: keys_descriptions)
  have export: "map_of (get_action_descriptions (register_all [] regs)) name
           = map_option
               (\<lambda>action. \<lparr>d_description = description action,
                           d_required_params = required_params action,
                           d_example = example action\<rparr>)
               (map_of (rev regs) name)"
    by (cases "map_of (rev regs) name")
       (simp_all add: map_of_descriptions map_of_register_all describe_action_def)
  have lookup: "get_action (register_all [] regs) name = map_of (rev regs) name"
    by (simp add: get_action_def map_of_register_all)
  have twice: "map_of (rev (xs @ (n, a1) # ys @ (n, a2) # zs)) = map_of (rev (xs @ ys @ (n, a2) # zs))"
    by (auto simp: fun_eq_iff map_add_def split: option.splits)
  have lookup2: "get_action (register_all [] (xs @ (n, a1) # ys @ (n, a2) # zs))
           = get_action (register_all [] (xs @ ys @ (n, a2) # zs))"
    unfolding get_action_def fun_eq_iff using twice by (simp add: map_of_register_all)
  have export2: "map_of (get_action_descriptions (register_all [] (xs @ (n, a1) # ys @ (n, a2) # zs)))
           = map_of (get_action_descriptions (register_all [] (xs @ ys @ (n, a2) # zs)))"
    unfolding fun_eq_iff map_of_descriptions using twice by (simp add: map_of_register_all)
  have instance1: "get_action_descriptions
         (register_all []
            [(''wave'', \<lparr>func = returning ''hello'', description = ''Wave a hand'',
                         required_params = [], example = []\<rparr>),
             (''nod'', \<lparr>func = returning ''yes'', description = ''Nod'',
                        required_params = [(''times'', ''how often'')], example = [(''times'', JInt 2)]\<rparr>),
             (''wave'', \<lparr>func = returning ''hi'', description = ''Wave the other hand'',
                         required_params = [(''hand'', ''which hand'')],
                         example = [(''hand'', JStr ''left'')]\<rparr>)])
         = [(''wave'', \<lparr>d_description = ''Wave the other hand'',
                         d_required_params = [(''hand'', ''which hand'')],
                         d_example = [(''hand'', JStr ''left'')]\<rparr>),
            (''nod'', \<lparr>d_description = ''Nod'', d_required_params = [(''times'', ''how often'')],
                        d_example = [(''times'', JInt 2)]\<rparr>)]"
    by (simp add: register_def get_action_descriptions_def describe_action_def)
  have instance2: "map_option func
         (get_action
            (register_all []
               [(''wave'', \<lparr>func = returning ''hello'', description = ''Wave a hand'',
                            required_params = [], example = []\<rparr>),
                (''wave'', \<lparr>func = returning ''hi'', description = ''Wave the other hand'',
                            required_params = [(''hand'', ''which hand'')],
                            example = [(''hand'', JStr ''left'')]\<rparr>)])
            ''wave'')
         = Some (returning ''hi'')"
    by (simp add: register_def get_action_def)
  from keys dist export lookup lookup2 export2 instance1 instance2 show ?thesis by blast
qed

section \<open>The concrete collaborators, evaluated\<close>

lemma demo_registry:
  "get_action (action_registry (demo_agent reply m)) ''wave''
     = Some \<lparr>func = returning ''hello'', description = ''Wave a hand'', required_params = [], example = []\<rparr>"
  "get_action (action_registry (demo_agent reply m)) ''trip''
     = Some \<lparr>func = raising (OtherException ''RuntimeError'' ''boom''), description = ''Always fails'',
             required_params = [], example = []\<rparr>"
  "get_action (action_registry (demo_agent reply m)) ''quit''
     = Some \<lparr>func = raising (BaseOnly ''SystemExit'' []), description = ''Leave'', required_params = [], example = []\<rparr>"
  "get_action (action_registry (demo_agent reply m)) ''nonexistent'' = None"
  by (simp_all add: demo_agent_def register_action_def new_agent_def register_def get_action_def)

lemma demo_fields:
  "action_history (demo_agent reply m) = []"
  "max_history (demo_agent reply m) = m"
  "llm_provider (demo_agent reply m) = demo_llm reply"
  "environment (demo_agent reply m) = demo_env"
  "system_template (demo_agent reply m) = ''Actions: {available_actions}''"
  "user_template (demo_agent reply m) = ''State: {state} History: {action_history}''"
  by (simp_all add: demo_agent_def register_action_def new_agent_def)


lemma deep_reply_head: "deep_reply = CHR ''['' # replicate 999 (CHR ''['')"
proof -
  have "(1000::nat) = Suc 999" by simp
  then show ?thesis unfolding deep_reply_def by (simp only: replicate_Suc)
qed

lemma demo_loads:
  "json_loads demo_rt wave_reply = Inr (JObj [(''action'', JStr ''wave''), (''reasoning'', JStr ''greet'')])"
  "json_loads demo_rt unknown_reply = Inr (JObj [(''action'', JStr ''nonexistent'')])"
  "json_loads demo_rt keyless_reply = Inr (JObj [(''reasoning'', JStr ''none'')])"
  "json_loads demo_rt quit_reply = Inr (JObj [(''action'', JStr ''quit'')])"
  "json_loads demo_rt deep_reply = Inl (OtherException ''RecursionError''
     ''maximum recursion depth exceeded while decoding a JSON array from a unicode string'')"
  "json_loads demo_rt ''not json'' = Inl (JSONDecodeError ''Expecting value: line 1 column 1 (char 0)'')"
  by (simp_all add: demo_rt_def wave_reply_def unknown_reply_def keyless_reply_def quit_reply_def
      deep_reply_head)


lemma demo_system_prompt:
  assumes "system_template a = ''Actions: {available_actions}''" and "environment a = demo_env"
  shows "build_system_prompt demo_rt a w = (Inr ''Actions: {}'', w)"
  using assms
  by (simp add: build_system_prompt_def demo_env_def str_format_def parse_field_def output_markup_def
      get_field_object_def is_digit_def demo_rt_def)

lemma demo_user_prompt:
  assumes "user_template a = ''State: {state} History: {action_history}''" and "action_history a = []"
  shows "build_user_prompt demo_rt a state = Inr ''State: {} History: No previous actions taken.''"
  using assms
  by (simp add: build_user_prompt_def format_action_history_def str_format_def parse_field_def
      output_markup_def get_field_object_def is_digit_def demo_rt_def)

lemma demo_next_action:
  assumes "system_template a = ''Actions: {available_actions}''" and "environment a = demo_env"
    and "user_template a = ''State: {state} History: {action_history}''" and "action_history a = []"
    and "llm_provider a = demo_llm reply"
  shows "json_loads demo_rt reply = Inr action_data \<Longrightarrow>
           get_next_action demo_rt a state w = (Inr action_data, Suc w)"
    and "json_loads demo_rt reply = Inl (JSONDecodeError m) \<Longrightarrow>
           get_next_action demo_rt a state w =
             (Inl (ValueError ''LLM response was not in the expected JSON format''), Suc w)"
    and "json_loads demo_rt reply = Inl (OtherException cls msg) \<Longrightarrow>
           get_next_action demo_rt a state w = (Inl (OtherException cls msg), Suc w)"
  using assms
  by (simp_all add: get_next_action_def demo_system_prompt demo_user_prompt demo_llm_def)

lemma execute_wave:
  assumes "get_action (action_registry a) ''wave''
     = Some \<lparr>func = returning ''hello'', description = ''Wave a hand'', required_params = [], example = []\<rparr>"
  shows "execute_action demo_rt a (JStr ''wave'') reasoning kwargs w =
     (success_result ''hello'',
      a\<lparr>action_history :=
         (if int (length (action_history a)) + 1 > max_history a
          then tl (action_history a @ [make_entry (JStr ''wave'') kwargs reasoning ''hello''])
          else action_history a @ [make_entry (JStr ''wave'') kwargs reasoning ''hello''])\<rparr>,
      Suc w)"
  using assms
  by (simp add: execute_action_def lookup_action_def returning_def success_result_def Let_def)

section \<open>Action execution\<close>

text \<open>
  C5. Executing a name that the registry does not hold returns, without raising,
  the failure result whose message is \<^verbatim>\<open>Action '<name>' not found\<close>, and leaves
  the agent, its history included, and the world as they were: no handler runs.
\<close>

theorem execute_action_not_found:
  assumes "get_action (action_registry a) name = None"
  shows "execute_action rt a (JStr name) reasoning kwargs w =
     (Inr \<lparr>success = False, message = ''Action '' @ apos @ name @ apos @ '' not found'', data = None\<rparr>, a, w)"
  using assms by (simp add: execute_action_def lookup_action_def str_json_def)

text \<open>The name \<^verbatim>\<open>nonexistent\<close> on the agent that knows \<^verbatim>\<open>wave\<close>, \<^verbatim>\<open>trip\<close> and \<^verbatim>\<open>quit\<close>.\<close>

theorem execute_action_not_found_witness:
  "get_action (action_registry (demo_agent ''hi'' 5)) ''nonexistent'' = None
   \<and> execute_action demo_rt (demo_agent ''hi'' 5) (JStr ''nonexistent'') (JStr ''why'') [] 0 =
       (Inr \<lparr>success = False, message = ''Action '' @ apos @ ''nonexistent'' @ apos @ '' not found'', data = None\<rparr>,
        demo_agent ''hi'' 5, 0)"
  using execute_action_not_found [of "demo_agent ''hi'' 5" "''nonexistent''" demo_rt "JStr ''why''" "[]" 0]
  by (simp add: demo_registry)




subsection \<open>The bounded history\<close>

lemma execute_action_history:
  assumes "execute_action rt a action_name reasoning kwargs w = (r, a1, w1)"
  shows "max_history a1 = max_history a"
    and "\<not> succeeded r \<Longrightarrow> action_history a1 = action_history a"
    and "succeeded r \<Longrightarrow> \<exists>v. r = success_result v \<and>
           action_history a1 =
             (if int (length (action_history a)) + 1 > max_history a
              then tl (action_history a @ [make_entry action_name kwargs reasoning v])
              else action_history a @ [make_entry action_name kwargs reasoning v])"
  using assms
  by (auto simp: execute_action_def succeeded_def success_result_def Let_def
      split: sum.splits option.splits prod.splits if_splits)

lemma kept_as_drop:
  assumes "int (length h) \<le> m"
  shows "(if int (length h) + 1 > m then tl (h @ [e]) else h @ [e])
           = drop (length h + 1 - nat m) (h @ [e])"
proof (cases "int (length h) + 1 > m")
  case True
  with assms have "length h + 1 - nat m = 1" by linarith
  with True show ?thesis by (metis One_nat_def drop_0 drop_Suc)
next
  case False
  then have "length h + 1 - nat m = 0" by linarith
  with False show ?thesis by simp
qed

lemma drop_kept_append:
  fixes h :: "'a list" and m :: nat
  assumes "length h \<le> m"
  shows "drop (length (drop (length h + 1 - m) (h @ [e])) + n - m) (drop (length h + 1 - m) (h @ [e]) @ rest)
       = drop (length h + Suc n - m) (h @ e # rest)"
proof (cases "length h = m")
  case True
  have one: "length h + 1 - m = 1" using True by simp
  have "drop 1 (h @ [e]) @ rest = drop 1 ((h @ [e]) @ rest)" by (cases h) simp_all
  moreover have "length (drop 1 (h @ [e])) = m" using True by simp
  ultimately have "drop (length (drop 1 (h @ [e])) + n - m) (drop 1 (h @ [e]) @ rest)
      = drop n (drop 1 ((h @ [e]) @ rest))" by simp
  also have "\<dots> = drop (Suc n) ((h @ [e]) @ rest)" by (simp only: drop_drop) simp
  also have "\<dots> = drop (length h + Suc n - m) (h @ e # rest)" using True by simp
  finally show ?thesis by (simp only: one)
next
  case False
  with assms have zero: "length h + 1 - m = 0" by simp
  show ?thesis by (simp only: zero drop_0) simp
qed

lemma execute_all_history:
  assumes "execute_all rt a calls w = (results, a', w')"
    and "list_all succeeded results"
    and "int (length (action_history a)) \<le> max_history a"
  shows "\<exists>vs. length vs = length calls \<and> results = map success_result vs \<and>
           max_history a' = max_history a \<and>
           action_history a' =
             drop (length (action_history a) + length calls - nat (max_history a))
               (action_history a @
                  map2 (\<lambda>(action_name, reasoning, kwargs) v. make_entry action_name kwargs reasoning v)
                    calls vs)"
  using assms
proof (induction calls arbitrary: a w results a' w')
  case Nil
  then show ?case by auto
next
  case (Cons c calls)
  obtain action_name reasoning kwargs where c: "c = (action_name, reasoning, kwargs)"
    by (cases c)
  obtain r a1 w1 where step: "execute_action rt a action_name reasoning kwargs w = (r, a1, w1)"
    by (cases "execute_action rt a action_name reasoning kwargs w")
  obtain rs a2 w2 where rest: "execute_all rt a1 calls w1 = (rs, a2, w2)"
    by (cases "execute_all rt a1 calls w1")
  from Cons.prems(1) c step rest have res: "results = r # rs" and a': "a' = a2"
    by simp_all
  from Cons.prems(2) res have r_ok: "succeeded r" and rs_ok: "list_all succeeded rs"
    by simp_all
  let ?h = "action_history a" and ?m = "nat (max_history a)"
  from Cons.prems(3) have h_le: "length ?h \<le> ?m" by linarith
  from execute_action_history(3) [OF step r_ok] obtain v where
    r: "r = success_result v" and
    h1: "action_history a1 =
           (if int (length ?h) + 1 > max_history a
            then tl (?h @ [make_entry action_name kwargs reasoning v])
            else ?h @ [make_entry action_name kwargs reasoning v])"
    by blast
  let ?e = "make_entry action_name kwargs reasoning v"
  have m1: "max_history a1 = max_history a" by (rule execute_action_history(1) [OF step])
  from h1 Cons.prems(3) have h1': "action_history a1 = drop (length ?h + 1 - ?m) (?h @ [?e])"
    by (simp only: kept_as_drop)
  have "length (action_history a1) \<le> ?m"
    using h_le by (simp add: h1')
  with Cons.prems(3) have bounded1: "int (length (action_history a1)) \<le> max_history a1"
    unfolding m1 by linarith
  from Cons.IH [OF rest rs_ok bounded1] obtain vs where
    vs: "length vs = length calls" "rs = map success_result vs" "max_history a2 = max_history a1"
    and h2: "action_history a2 =
        drop (length (action_history a1) + length calls - nat (max_history a1))
          (action_history a1 @
             map2 (\<lambda>(action_name, reasoning, kwargs) v. make_entry action_name kwargs reasoning v) calls vs)"
    by blast
  let ?rest = "map2 (\<lambda>(action_name, reasoning, kwargs) v. make_entry action_name kwargs reasoning v) calls vs"
  have "action_history a2 =
      drop (length (drop (length ?h + 1 - ?m) (?h @ [?e])) + length calls - ?m)
        (drop (length ?h + 1 - ?m) (?h @ [?e]) @ ?rest)"
    using h2 by (simp only: h1' m1)
  also have "\<dots> = drop (length ?h + Suc (length calls) - ?m) (?h @ ?e # ?rest)"
    by (rule drop_kept_append [OF h_le])
  finally have final: "action_history a2 = drop (length ?h + length (c # calls) - ?m) (?h @ ?e # ?rest)"
    by simp
  show ?case
    by (rule exI [of _ "v # vs"]) (simp add: vs res r a' m1 final c)
qed

text \<open>
  C3. Starting from an empty history with a positive \<^verbatim>\<open>max_history\<close>, after a
  sequence of \<open>K\<close> calls that all succeed the results wrap the values the handlers
  returned, the history has \<open>min K max_history\<close> entries, and they are the entries
  of the last \<open>min K max_history\<close> calls, in the order of the calls.
\<close>

theorem history_after_successes:
  assumes "action_history a = []"
    and "0 < max_history a"
    and "execute_all rt a calls w = (results, a', w')"
    and "list_all succeeded results"
  shows "\<exists>values. length values = length calls
       \<and> results =
           map (\<lambda>v. Inr \<lparr>success = True, message = ''Action executed successfully'', data = Some v\<rparr>)
             values
       \<and> length (action_history a') = min (length calls) (nat (max_history a))
       \<and> action_history a' =
           drop (length calls - min (length calls) (nat (max_history a)))
             (map2 (\<lambda>(action_name, reasoning, kwargs) v.
                      [(''name'', Decoded action_name), (''parameters'', Decoded (JObj kwargs)),
                       (''reasoning'', Decoded reasoning), (''result'', Returned v)])
                calls values)"
proof -
  from assms(1,2) have "int (length (action_history a)) \<le> max_history a" by simp
  from execute_all_history [OF assms(3,4) this] obtain vals where
    v: "length vals = length calls" "results = map success_result vals"
    and h: "action_history a' =
        drop (length (action_history a) + length calls - nat (max_history a))
          (action_history a @
             map2 (\<lambda>(action_name, reasoning, kwargs) v. make_entry action_name kwargs reasoning v) calls vals)"
    by blast
  have eq: "length calls - min (length calls) (nat (max_history a)) = length calls - nat (max_history a)"
    by simp
  from h assms(1) have h': "action_history a' =
      drop (length calls - min (length calls) (nat (max_history a)))
        (map2 (\<lambda>(action_name, reasoning, kwargs) v. make_entry action_name kwargs reasoning v) calls vals)"
    by (simp add: eq)
  then have "length (action_history a') = min (length calls) (nat (max_history a))"
    using v(1) by simp
  with v h' have "length vals = length calls \<and> results = map success_result vals
       \<and> length (action_history a') = min (length calls) (nat (max_history a))
       \<and> action_history a' =
           drop (length calls - min (length calls) (nat (max_history a)))
             (map2 (\<lambda>(action_name, reasoning, kwargs) v. make_entry action_name kwargs reasoning v)
                calls vals)"
    by blast
  then show ?thesis
    unfolding make_entry_def success_result_def by (intro exI [of _ vals])
qed

text \<open>
  Scenario D of the specification: \<^verbatim>\<open>max_history = 2\<close> and three successful
  executions with the reasonings \<^verbatim>\<open>X\<close>, \<^verbatim>\<open>Y\<close>, \<^verbatim>\<open>Z\<close> leave the entries of
  \<^verbatim>\<open>Y\<close> and \<^verbatim>\<open>Z\<close>.
\<close>

lemma three_calls_run:
  "execute_all demo_rt (demo_agent ''hi'' 2) three_calls 0 =
     ([success_result ''hello'', success_result ''hello'', success_result ''hello''],
      (demo_agent ''hi'' 2)\<lparr>action_history :=
         [make_entry (JStr ''wave'') [] (JStr ''Y'') ''hello'', make_entry (JStr ''wave'') [] (JStr ''Z'') ''hello'']\<rparr>,
      3)"
  unfolding three_calls_def
  by (simp add: execute_wave demo_registry demo_fields numeral_3_eq_3)

theorem history_after_successes_witness:
  "action_history (demo_agent ''hi'' 2) = []
   \<and> 0 < max_history (demo_agent ''hi'' 2)
   \<and> list_all succeeded (fst (execute_all demo_rt (demo_agent ''hi'' 2) three_calls 0))
   \<and> action_history (fst (snd (execute_all demo_rt (demo_agent ''hi'' 2) three_calls 0))) =
       [[(''name'', Decoded (JStr ''wave'')), (''parameters'', Decoded (JObj [])),
         (''reasoning'', Decoded (JStr ''Y'')), (''result'', Returned ''hello'')],
        [(''name'', Decoded (JStr ''wave'')), (''parameters'', Decoded (JObj [])),
         (''reasoning'', Decoded (JStr ''Z'')), (''result'', Returned ''hello'')]]"
proof -
  have empty: "action_history (demo_agent ''hi'' 2) = []" and pos: "0 < max_history (demo_agent ''hi'' 2)"
    by (simp_all add: demo_fields)
  have ok: "list_all succeeded [success_result ''hello'', success_result ''hello'', success_result ''hello'']"
    by (simp add: succeeded_def success_result_def)
  from history_after_successes [OF empty pos three_calls_run ok] obtain vals where
    res: "[success_result ''hello'', success_result ''hello'', success_result ''hello'']
              = map (\<lambda>v. Inr \<lparr>success = True, message = ''Action executed successfully'', data = Some v\<rparr>)
                  vals"
    and h: "action_history ((demo_agent ''hi'' 2)\<lparr>action_history :=
         [make_entry (JStr ''wave'') [] (JStr ''Y'') ''hello'', make_entry (JStr ''wave'') [] (JStr ''Z'') ''hello'']\<rparr>) =
         drop (length three_calls - min (length three_calls) (nat (max_history (demo_agent ''hi'' 2))))
           (map2 (\<lambda>(action_name, reasoning, kwargs) v.
                    [(''name'', Decoded action_name), (''parameters'', Decoded (JObj kwargs)),
                     (''reasoning'', Decoded reasoning), (''result'', Returned v)])
              three_calls vals)"
    by (elim exE conjE)
  from res have vals: "vals = [''hello'', ''hello'', ''hello'']"
    by (auto simp: Cons_eq_map_conv success_result_def)
  have "action_history (fst (snd (execute_all demo_rt (demo_agent ''hi'' 2) three_calls 0))) =
       [[(''name'', Decoded (JStr ''wave'')), (''parameters'', Decoded (JObj [])),
         (''reasoning'', Decoded (JStr ''Y'')), (''result'', Returned ''hello'')],
        [(''name'', Decoded (JStr ''wave'')), (''parameters'', Decoded (JObj [])),
         (''reasoning'', Decoded (JStr ''Z'')), (''result'', Returned ''hello'')]]"
    unfolding three_calls_run using h unfolding vals by (simp add: three_calls_def demo_fields)
  with empty pos ok show ?thesis by (simp add: three_calls_run)
qed

lemma execute_action_bounded:
  assumes "execute_action rt a action_name reasoning kwargs w = (r, a1, w1)"
    and "history_bounded a"
  shows "history_bounded a1"
  using assms
  by (auto simp: execute_action_def history_bounded_def Let_def
      split: sum.splits option.splits prod.splits if_splits)

lemma call_execute_action_bounded:
  assumes "call_execute_action rt a action_name reasoning action_data w = (r, a1, w1)"
    and "history_bounded a"
  shows "history_bounded a1"
  using assms
  by (auto simp: call_execute_action_def split: option.splits dest: execute_action_bounded)

lemma loop_body_bounded:
  assumes "loop_body rt a w = (it, a1, w1)" and "history_bounded a"
  shows "history_bounded a1"
  using assms
  by (auto simp: loop_body_def split: sum.splits prod.splits if_splits
      dest: call_execute_action_bounded)

lemma run_steps_bounded:
  assumes "run_steps rt n a w = (out, k, a1, w1)" and "history_bounded a"
  shows "history_bounded a1"
  using assms
proof (induction n arbitrary: a w out k a1 w1)
  case 0
  then show ?case by simp
next
  case (Suc n)
  obtain it a2 w2 where body: "loop_body rt a w = (it, a2, w2)"
    by (cases "loop_body rt a w")
  have b2: "history_bounded a2" by (rule loop_body_bounded [OF body Suc.prems(2)])
  show ?case
  proof (cases it)
    case Succeeded
    obtain out' k' a3 w3 where rest: "run_steps rt n a2 w2 = (out', k', a3, w3)"
      by (cases "run_steps rt n a2 w2")
    with Suc.prems(1) body Succeeded have "a1 = a3" by simp
    with Suc.IH [OF rest b2] show ?thesis by simp
  next
    case (Raised st e)
    with Suc.prems(1) body b2 show ?thesis by simp
  next
    case (Failed msg)
    with Suc.prems(1) body b2 show ?thesis by simp
  qed
qed

text \<open>
  C9. For an agent with a positive \<^verbatim>\<open>max_history\<close> whose history is not longer
  than \<^verbatim>\<open>max_history\<close>, the same holds of the agent after \<^verbatim>\<open>register_action\<close>,
  after \<^verbatim>\<open>execute_action\<close> whatever its outcome, and after \<^verbatim>\<open>run_loop\<close>
  however it ends. Prompt construction and \<^verbatim>\<open>get_next_action\<close> assign no field
  of the agent, in the source as in the model, where they return no agent; the
  run loop, which calls them in every iteration, covers them.
\<close>

theorem history_stays_bounded:
  assumes "0 < max_history a" and "history_bounded a"
  shows "history_bounded (register_action a name f descr params ex)
       \<and> history_bounded (fst (snd (execute_action rt a action_name reasoning kwargs w)))
       \<and> history_bounded (fst (snd (snd (run_loop rt a max_steps w))))"
proof -
  have "history_bounded (register_action a name f descr params ex)"
    using assms(2) by (simp add: history_bounded_def register_action_def)
  moreover have "history_bounded (fst (snd (execute_action rt a action_name reasoning kwargs w)))"
    using execute_action_bounded [OF _ assms(2), of rt action_name reasoning kwargs w]
    by (cases "execute_action rt a action_name reasoning kwargs w") simp
  moreover have "history_bounded (fst (snd (snd (run_loop rt a max_steps w))))"
    using run_steps_bounded [OF _ assms(2), of rt "nat max_steps" w]
    by (cases "run_steps rt (nat max_steps) a w") (simp add: run_loop_def)
  ultimately show ?thesis by blast
qed

text \<open>The agent with \<^verbatim>\<open>max_history = 1\<close> whose provider always asks for \<^verbatim>\<open>wave\<close>.\<close>

theorem history_stays_bounded_witness:
  "0 < max_history (demo_agent wave_reply 1)
   \<and> history_bounded (demo_agent wave_reply 1)
   \<and> history_bounded (register_action (demo_agent wave_reply 1)
         ''nod'' (returning ''yes'') ''Nod'' [] [])
   \<and> history_bounded (fst (snd (execute_action demo_rt
         (demo_agent wave_reply 1) (JStr ''wave'') (JStr ''greet'') [] 0)))
   \<and> history_bounded (fst (snd (snd (run_loop demo_rt
         (demo_agent wave_reply 1) 3 0))))"
  using history_stays_bounded [of "demo_agent wave_reply 1"
      "''nod''" "returning ''yes''" "''Nod''" "[]" "[]" demo_rt "JStr ''wave''" "JStr ''greet''" "[]" 0 3]
  by (simp add: history_bounded_def demo_fields)

section \<open>Prompt construction\<close>

lemma format_entry_make_entry:
  "format_entry rt (make_entry action_name kwargs reasoning result) = Inl (KeyError ''timestamp'')"
  by (simp add: format_entry_def make_entry_def getitem_def)

lemma last_slice_nonempty:
  assumes "0 \<le> m" and "xs \<noteq> []"
  shows "last_slice m xs \<noteq> []"
proof (cases "0 < m")
  case True
  with assms(2) have "length xs - nat m < length xs" by (simp add: diff_less)
  with True show ?thesis by (simp add: last_slice_def)
next
  case False
  with assms have "m = 0" by simp
  with assms(2) show ?thesis by (simp add: last_slice_def)
qed

lemma format_entries_all_raise:
  assumes "ys \<noteq> []" and "\<forall>y \<in> set ys. format_entry rt y = Inl e"
  shows "format_entries rt ys = Inl e"
  using assms by (cases ys) auto

lemma format_history_made_entries:
  assumes "action_history a \<noteq> []"
    and "\<forall>y \<in> set (action_history a). format_entry rt y = Inl e"
    and "0 \<le> max_history a"
  shows "format_action_history rt a = Inl e"
proof -
  let ?window = "last_slice (max_history a) (action_history a)"
  have "?window \<noteq> []" by (rule last_slice_nonempty [OF assms(3,1)])
  moreover have "set ?window \<subseteq> set (action_history a)"
    by (auto simp: last_slice_def dest: in_set_dropD)
  ultimately have "format_entries rt ?window = Inl e"
    using assms(2) by (intro format_entries_all_raise) auto
  with assms(1) show ?thesis by (simp add: format_action_history_def)
qed

lemma format_history_after_execute:
  assumes "get_action (action_registry a) name = Some action"
    and "func action kwargs w = (Inr result, w1)"
    and "action_history a = []"
    and "0 < max_history a"
  shows "format_action_history rt (fst (snd (execute_action rt a (JStr name) reasoning kwargs w)))
           = Inl (KeyError ''timestamp'')"
  using assms
  by (simp add: execute_action_def lookup_action_def Let_def format_action_history_def last_slice_def
      format_entry_make_entry)

text \<open>
  C1 does not hold of the code. An empty history is rendered as the sentence
  \<^verbatim>\<open>No previous actions taken.\<close>; but for every history that is not empty and
  consists of entries as \<^verbatim>\<open>execute_action\<close> appends them, and every
  \<^verbatim>\<open>max_history\<close> that is not negative, the rendering raises
  \<^verbatim>\<open>KeyError('timestamp')\<close>: the line reads the key \<^verbatim>\<open>timestamp\<close>, which
  \<^verbatim>\<open>execute_action\<close> never stores. So it is for the history that one successful
  \<^verbatim>\<open>wave\<close> leaves.
\<close>

theorem format_history_of_executed_actions_raises:
  "format_action_history rt (a\<lparr>action_history := []\<rparr>) = Inr ''No previous actions taken.''
   \<and> format_action_history rt
        (a\<lparr>action_history :=
              map (\<lambda>(action_name, kwargs, reasoning, result). make_entry action_name kwargs reasoning result)
                (x # xs),
            max_history := int m\<rparr>) = Inl (KeyError ''timestamp'')
   \<and> format_action_history demo_rt
        (fst (snd (execute_action demo_rt (demo_agent wave_reply 5) (JStr ''wave'') (JStr ''greet'') [] 0)))
       = Inl (KeyError ''timestamp'')"
proof -
  have "format_action_history rt (a\<lparr>action_history := []\<rparr>) = Inr ''No previous actions taken.''"
    by (simp add: format_action_history_def)
  moreover have "format_action_history rt
        (a\<lparr>action_history :=
              map (\<lambda>(action_name, kwargs, reasoning, result). make_entry action_name kwargs reasoning result)
                (x # xs),
            max_history := int m\<rparr>) = Inl (KeyError ''timestamp'')"
    by (rule format_history_made_entries) (auto simp: format_entry_make_entry split: prod.splits)
  moreover have "format_action_history demo_rt
        (fst (snd (execute_action demo_rt (demo_agent wave_reply 5) (JStr ''wave'') (JStr ''greet'') [] 0)))
       = Inl (KeyError ''timestamp'')"
    by (rule format_history_after_execute [OF demo_registry(1)])
       (simp_all add: returning_def demo_fields)
  ultimately show ?thesis by blast
qed

lemma system_intro_renders:
  "list_all (\<lambda>l. \<not> isl (build_string rt
       [(''character_info'', ci), (''world_description'', wd), (''state_descriptions'', sd),
        (''available_actions'', aa), (''agent_guidelines'', ag)] l))
     system_template_intro"
  unfolding system_template_intro_def
  by (simp add: parse_field_def output_markup_def get_field_object_def is_digit_def)

lemma system_format_raises:
  "build_string rt
       [(''character_info'', ci), (''world_description'', wd), (''state_descriptions'', sd),
        (''available_actions'', aa), (''agent_guidelines'', ag)]
       (concat system_template_format @ t)
     = Inl (KeyError ''\<newline>    \"reasoning\"'')"
  unfolding system_template_format_def
  by (simp add: parse_field_def output_markup_def get_field_object_def is_digit_def)

lemma default_system_template_raises:
  "str_format rt DEFAULT_SYSTEM_TEMPLATE
       [(''character_info'', ci), (''world_description'', wd), (''state_descriptions'', sd),
        (''available_actions'', aa), (''agent_guidelines'', ag)]
     = Inl (KeyError ''\<newline>    \"reasoning\"'')"
  unfolding str_format_def DEFAULT_SYSTEM_TEMPLATE_def concat_append append_assoc
  by (rule build_string_lines_error [OF system_intro_renders system_format_raises])

lemma default_user_template_raises:
  "str_format rt DEFAULT_USER_TEMPLATE [(''state'', s), (''action_history'', h)] = Inl (KeyError ''goal'')"
  unfolding str_format_def DEFAULT_USER_TEMPLATE_def
  by (simp add: parse_field_def output_markup_def get_field_object_def is_digit_def)

lemma build_user_prompt_default:
  assumes "user_template a = DEFAULT_USER_TEMPLATE"
  shows "isl (build_user_prompt rt a state)"
    and "action_history a = [] \<Longrightarrow> build_user_prompt rt a state = Inl (KeyError ''goal'')"
  using assms
  by (auto simp: build_user_prompt_def default_user_template_raises format_action_history_def
      split: sum.splits)

lemma build_system_prompt_default:
  assumes "system_template a = DEFAULT_SYSTEM_TEMPLATE"
  shows "isl (fst (build_system_prompt rt a w))"
    and "get_state_descriptions (environment a) w = (Inr sd, w1)
         \<Longrightarrow> get_world_description (environment a) w1 = (Inr wd, w2)
         \<Longrightarrow> build_system_prompt rt a w = (Inl (KeyError ''\<newline>    \"reasoning\"''), w2)"
  using assms
  by (auto simp: build_system_prompt_def default_system_template_raises Let_def
      split: sum.splits prod.splits)

text \<open>
  C2 does not hold of the code. With the default user template the user prompt is
  never built: for an empty history \<^verbatim>\<open>format\<close> raises \<^verbatim>\<open>KeyError('goal')\<close>, the
  template naming a placeholder \<^verbatim>\<open>goal\<close> that the builder does not supply, and
  for any other history the builder raises this or the error of the history
  rendering. With the default system template the system prompt is never built:
  the braces of the response format are not doubled, so \<^verbatim>\<open>format\<close> reads the line
  break and \<^verbatim>\<open>"reasoning"\<close> after the first of them as the name of a field and
  raises \<^verbatim>\<open>KeyError\<close>, unless the environment has raised before. So it is for the
  agent constructed with every default.
\<close>

theorem default_templates_never_build:
  "build_user_prompt rt (a\<lparr>user_template := DEFAULT_USER_TEMPLATE, action_history := []\<rparr>) state
     = Inl (KeyError ''goal'')
   \<and> isl (build_user_prompt rt (a\<lparr>user_template := DEFAULT_USER_TEMPLATE\<rparr>) state)
   \<and> isl (fst (build_system_prompt rt (a\<lparr>system_template := DEFAULT_SYSTEM_TEMPLATE\<rparr>) w))
   \<and> build_user_prompt demo_rt (new_agent (demo_llm wave_reply) demo_env) (JObj []) = Inl (KeyError ''goal'')
   \<and> build_system_prompt demo_rt (new_agent (demo_llm wave_reply) demo_env) 0
       = (Inl (KeyError ''\<newline>    \"reasoning\"''), 0)"
proof -
  have "build_user_prompt rt (a\<lparr>user_template := DEFAULT_USER_TEMPLATE, action_history := []\<rparr>) state
     = Inl (KeyError ''goal'')"
    by (rule build_user_prompt_default(2)) simp_all
  moreover have "isl (build_user_prompt rt (a\<lparr>user_template := DEFAULT_USER_TEMPLATE\<rparr>) state)"
    by (rule build_user_prompt_default(1)) simp
  moreover have "isl (fst (build_system_prompt rt (a\<lparr>system_template := DEFAULT_SYSTEM_TEMPLATE\<rparr>) w))"
    by (rule build_system_prompt_default(1)) simp
  moreover have "build_user_prompt demo_rt (new_agent (demo_llm wave_reply) demo_env) (JObj [])
      = Inl (KeyError ''goal'')"
    by (rule build_user_prompt_default(2)) (simp_all add: new_agent_def)
  moreover have "build_system_prompt demo_rt (new_agent (demo_llm wave_reply) demo_env) 0
       = (Inl (KeyError ''\<newline>    \"reasoning\"''), 0)"
    by (rule build_system_prompt_default(2) [where sd = "JObj []" and wd = "''a room''" and ?w1.0 = 0])
       (simp_all add: new_agent_def demo_env_def)
  ultimately show ?thesis by blast
qed

section \<open>Next-action resolution\<close>

text \<open>
  C6, as the code has it. Once both prompts are built and the provider has
  answered with a text: if \<^verbatim>\<open>json.loads\<close> raises \<^verbatim>\<open>JSONDecodeError\<close> on the text,
  \<^verbatim>\<open>get_next_action\<close> raises the \<^verbatim>\<open>ValueError\<close> that names the format and
  returns no value at all; if \<^verbatim>\<open>json.loads\<close> raises any other exception,
  \<^verbatim>\<open>get_next_action\<close> raises that exception, unconverted; if the text decodes, the
  decoded value is returned as it is, whatever its shape.
\<close>

theorem get_next_action_decodes:
  assumes "build_system_prompt rt a w = (Inr system_prompt, w1)"
    and "build_user_prompt rt a state = Inr user_prompt"
    and "generate_response (llm_provider a) system_prompt user_prompt w1 = (Inr content, w2)"
  shows "(\<forall>m. json_loads rt content = Inl (JSONDecodeError m) \<longrightarrow>
            get_next_action rt a state w =
              (Inl (ValueError ''LLM response was not in the expected JSON format''), w2))
       \<and> (\<forall>e. json_loads rt content = Inl e \<and> (\<forall>m. e \<noteq> JSONDecodeError m) \<longrightarrow>
            get_next_action rt a state w = (Inl e, w2))
       \<and> (\<forall>action_data. json_loads rt content = Inr action_data \<longrightarrow>
            get_next_action rt a state w = (Inr action_data, w2))"
  using assms by (auto simp: get_next_action_def split: exn.splits)

text \<open>
  The replies \<^verbatim>\<open>not json\<close>, a thousand opening brackets, and
  \<^verbatim>\<open>{"action":"wave","reasoning":"greet"}\<close>.
\<close>

theorem get_next_action_decodes_witness:
  "get_next_action demo_rt (demo_agent ''not json'' 5) (JObj []) 0 =
     (Inl (ValueError ''LLM response was not in the expected JSON format''), 1)
   \<and> get_next_action demo_rt (demo_agent deep_reply 5) (JObj []) 0 =
     (Inl (OtherException ''RecursionError''
        ''maximum recursion depth exceeded while decoding a JSON array from a unicode string''), 1)
   \<and> get_next_action demo_rt (demo_agent wave_reply 5) (JObj []) 0 =
     (Inr (JObj [(''action'', JStr ''wave''), (''reasoning'', JStr ''greet'')]), 1)"
proof -
  have sp: "build_system_prompt demo_rt (demo_agent reply 5) 0 = (Inr ''Actions: {}'', 0)" for reply
    by (simp add: demo_system_prompt demo_fields)
  have up: "build_user_prompt demo_rt (demo_agent reply 5) (JObj [])
      = Inr ''State: {} History: No previous actions taken.''" for reply
    by (simp add: demo_user_prompt demo_fields)
  have gen: "generate_response (llm_provider (demo_agent reply 5)) ''Actions: {}''
      ''State: {} History: No previous actions taken.'' 0 = (Inr reply, 1)" for reply
    by (simp add: demo_fields demo_llm_def)
  from get_next_action_decodes [OF sp up gen, of "''not json''"]
       get_next_action_decodes [OF sp up gen, of deep_reply]
       get_next_action_decodes [OF sp up gen, of wave_reply]
  show ?thesis by (simp add: demo_loads)
qed

text \<open>
  C6 as the specification states it fails: a reply of a thousand opening brackets
  is not JSON, the decoder raises \<^verbatim>\<open>RecursionError\<close> on it, which is no
  \<^verbatim>\<open>JSONDecodeError\<close>, and \<^verbatim>\<open>get_next_action\<close> raises that error and not the
  format error.
\<close>

theorem get_next_action_recursion_counterexample:
  "json_loads demo_rt deep_reply = Inl (OtherException ''RecursionError''
     ''maximum recursion depth exceeded while decoding a JSON array from a unicode string'')
   \<and> get_next_action demo_rt (demo_agent deep_reply 5) (JObj []) 0 =
     (Inl (OtherException ''RecursionError''
        ''maximum recursion depth exceeded while decoding a JSON array from a unicode string''), 1)
   \<and> get_next_action demo_rt (demo_agent deep_reply 5) (JObj []) 0 \<noteq>
     (Inl (ValueError ''LLM response was not in the expected JSON format''), 1)"
  by (simp add: demo_next_action(3) [OF _ _ _ _ _ demo_loads(5)] demo_fields demo_loads)

section \<open>The run loop\<close>




















end
